theory Spec2Isabelle
  imports Complex_Main "HOL-Library.Sublist"
begin

section \<open>Fire station command centre: the dispatch handler of app.py\<close>

text \<open>
  The program is one Python module: three module-level tables (\<open>vehicles\<close>,
  \<open>equipment_list\<close>, \<open>incident_log\<close>), the route policy \<open>ai_route\<close>, two chart
  functions, \<open>generate_map\<close> and the handler \<open>dispatch_incident\<close>.

  Python text is modelled as \<^typ>\<open>string\<close> holding the UTF-8 bytes of the text, so that
  equality and containment of texts are equality and containment of byte lists. The
  pictographs of the source are named constants below.
\<close>

subsection \<open>Text constants\<close>

definition MOTORWAY :: string where \<comment> \<open>U+1F6E3\<close>
  "MOTORWAY = [CHR 0xF0, CHR 0x9F, CHR 0x9B, CHR 0xA3]"

definition FIRE_ENGINE :: string where \<comment> \<open>U+1F692\<close>
  "FIRE_ENGINE = [CHR 0xF0, CHR 0x9F, CHR 0x9A, CHR 0x92]"

definition AMBULANCE :: string where \<comment> \<open>U+1F691\<close>
  "AMBULANCE = [CHR 0xF0, CHR 0x9F, CHR 0x9A, CHR 0x91]"

definition FIRE_EXTINGUISHER :: string where \<comment> \<open>U+1F9EF\<close>
  "FIRE_EXTINGUISHER = [CHR 0xF0, CHR 0x9F, CHR 0xA7, CHR 0xAF]"

definition DROPLET :: string where \<comment> \<open>U+1F4A7\<close>
  "DROPLET = [CHR 0xF0, CHR 0x9F, CHR 0x92, CHR 0xA7]"

definition LUNGS :: string where \<comment> \<open>U+1FAC1\<close>
  "LUNGS = [CHR 0xF0, CHR 0x9F, CHR 0xAB, CHR 0x81]"

definition SCISSORS :: string where \<comment> \<open>U+2702\<close>
  "SCISSORS = [CHR 0xE2, CHR 0x9C, CHR 0x82]"

definition GLOVES :: string where \<comment> \<open>U+1F9E4\<close>
  "GLOVES = [CHR 0xF0, CHR 0x9F, CHR 0xA7, CHR 0xA4]"

definition TOOLBOX :: string where \<comment> \<open>U+1F9F0\<close>
  "TOOLBOX = [CHR 0xF0, CHR 0x9F, CHR 0xA7, CHR 0xB0]"

definition REVOLVING_LIGHT :: string where \<comment> \<open>U+1F6A8\<close>
  "REVOLVING_LIGHT = [CHR 0xF0, CHR 0x9F, CHR 0x9A, CHR 0xA8]"

definition YELLOW_CIRCLE :: string where \<comment> \<open>U+1F7E1\<close>
  "YELLOW_CIRCLE = [CHR 0xF0, CHR 0x9F, CHR 0x9F, CHR 0xA1]"

definition GREEN_CIRCLE :: string where \<comment> \<open>U+1F7E2\<close>
  "GREEN_CIRCLE = [CHR 0xF0, CHR 0x9F, CHR 0x9F, CHR 0xA2]"

definition HEAVY_HORIZONTAL :: string where \<comment> \<open>U+2501\<close>
  "HEAVY_HORIZONTAL = [CHR 0xE2, CHR 0x94, CHR 0x81]"

definition FIRE :: string where \<comment> \<open>U+1F525\<close>
  "FIRE = [CHR 0xF0, CHR 0x9F, CHR 0x94, CHR 0xA5]"

definition PUSHPIN :: string where \<comment> \<open>U+1F4CD\<close>
  "PUSHPIN = [CHR 0xF0, CHR 0x9F, CHR 0x93, CHR 0x8D]"

definition WARNING_SIGN :: string where \<comment> \<open>U+26A0\<close>
  "WARNING_SIGN = [CHR 0xE2, CHR 0x9A, CHR 0xA0]"

definition MAN :: string where \<comment> \<open>U+1F468\<close>
  "MAN = [CHR 0xF0, CHR 0x9F, CHR 0x91, CHR 0xA8]"

definition ZWJ :: string where \<comment> \<open>U+200D\<close>
  "ZWJ = [CHR 0xE2, CHR 0x80, CHR 0x8D]"

definition STOPWATCH :: string where \<comment> \<open>U+23F1\<close>
  "STOPWATCH = [CHR 0xE2, CHR 0x8F, CHR 0xB1]"

definition CLOCK_THREE :: string where \<comment> \<open>U+1F552\<close>
  "CLOCK_THREE = [CHR 0xF0, CHR 0x9F, CHR 0x95, CHR 0x92]"

definition CHECK_MARK :: string where \<comment> \<open>U+2705\<close>
  "CHECK_MARK = [CHR 0xE2, CHR 0x9C, CHR 0x85]"

definition NL :: string where \<comment> \<open>the line feed\<close>
  "NL = [CHR 0x0A]"

subsection \<open>Python values\<close>

text \<open>
  The handler is untyped. Its scalar arguments are modelled by \<open>pyval\<close>: \<open>None\<close>, a
  text, an integer or a float; these are the values the form delivers (text boxes, a radio
  group, a number field) and the ones a direct call passes. A float is the real number it
  stands for, or one of the three special values; rounding to binary64 is not modelled.
\<close>

datatype pyfloat = Fin real | PosInf | NegInf | NaN

datatype pynum = PyInt int | PyFloat pyfloat

datatype pyval = PyNone | PyStr string | PyNum pynum

datatype error = ValueError | TypeError | OverflowError | KeyError | IndexError

subsection \<open>Formatting: \<open>str\<close>, f-strings and \<open>join\<close>\<close>

definition digit_char :: "nat \<Rightarrow> char" where
  "digit_char d = ''0123456789'' ! d"

fun str_nat :: "nat \<Rightarrow> string" where
  "str_nat n = (if n < 10 then [digit_char n] else str_nat (n div 10) @ [digit_char (n mod 10)])"

declare str_nat.simps [simp del]

definition str_int :: "int \<Rightarrow> string" where
  "str_int i = (if i < 0 then ''-'' @ str_nat (nat (- i)) else str_nat (nat i))"

text \<open>
  What \<open>f"{x}"\<close> puts into the text. The shortest-round-trip printing of a float
  belongs to the language, not to this program: it is the parameter \<open>repr\<close>.
\<close>

fun py_str :: "(pyfloat \<Rightarrow> string) \<Rightarrow> pyval \<Rightarrow> string" where
  "py_str repr PyNone = ''None''"
| "py_str repr (PyStr s) = s"
| "py_str repr (PyNum (PyInt i)) = str_int i"
| "py_str repr (PyNum (PyFloat x)) = repr x"

text \<open>\<open>sep.join(xs)\<close> on a list of texts.\<close>

fun join :: "string \<Rightarrow> string list \<Rightarrow> string" where
  "join sep [] = []"
| "join sep [x] = x"
| "join sep (x # y # ys) = x @ sep @ join sep (y # ys)"

subsection \<open>Sample data\<close>

definition vehicles :: "(string \<times> string list) list" where
  "vehicles =
    [(FIRE_ENGINE @ '' Fire Engine 1'', [''Officer A'', ''Officer B'', ''Officer C'']),
     (FIRE_ENGINE @ '' Fire Engine 2'', [''Officer D'', ''Officer E'']),
     (AMBULANCE @ '' Rescue Van 1'', [''Officer F'', ''Officer G''])]"

definition equipment_list :: "string list" where
  "equipment_list =
    [FIRE_EXTINGUISHER @ '' Fire Extinguisher'', DROPLET @ '' Water Hose'',
     LUNGS @ '' Oxygen Cylinder'', SCISSORS @ '' Hydraulic Cutter'',
     GLOVES @ '' Protective Gear'']"

subsection \<open>AI route selection\<close>

text \<open>
  \<open>severity == "High"\<close> compares a Python value with a text: it holds for that text
  only, and is false (never an error) for every other value.
\<close>

definition ai_route :: "pyval \<Rightarrow> string \<times> int" where
  "ai_route severity =
    (if severity = PyStr ''High'' then (MOTORWAY @ '' Emergency Green Corridor'', 12)
     else if severity = PyStr ''Medium'' then (MOTORWAY @ '' Traffic-Aware City Route'', 18)
     else (MOTORWAY @ '' Normal Shortest Route'', 25))"

subsection \<open>Coercion to float\<close>

text \<open>
  \<open>float(x)\<close>. For a text, the language strips white space and accepts an optional sign
  followed by \<open>inf\<close>, \<open>infinity\<close> or \<open>nan\<close> in any letter case, or by a decimal
  number: digits with an optional point and an optional exponent, where single underscores
  may separate digits. This is the grammar for texts of ASCII characters; digits and spaces
  of other scripts, which the language maps to ASCII ones first, are not recognised here.
\<close>

definition is_space :: "char \<Rightarrow> bool" where
  "is_space c \<longleftrightarrow> c \<in> set [CHR 0x09, CHR 0x0A, CHR 0x0B, CHR 0x0C, CHR 0x0D, CHR '' '']"

definition strip :: "string \<Rightarrow> string" where
  "strip s = rev (dropWhile is_space (rev (dropWhile is_space s)))"

definition is_digit :: "char \<Rightarrow> bool" where
  "is_digit c \<longleftrightarrow> c \<in> set ''0123456789''"

definition digit_val :: "char \<Rightarrow> nat" where
  "digit_val c = of_char c - 48"

text \<open>The digits that continue a digit part: \<open>(["_"] digit)*\<close>, and the rest of the text.\<close>

fun more_digits :: "string \<Rightarrow> nat list \<times> string" where
  "more_digits [] = ([], [])"
| "more_digits [c] = (if is_digit c then ([digit_val c], []) else ([], [c]))"
| "more_digits (c # d # cs) =
    (if is_digit c then (case more_digits (d # cs) of (ds, r) \<Rightarrow> (digit_val c # ds, r))
     else if c = CHR ''_'' \<and> is_digit d then (case more_digits cs of (ds, r) \<Rightarrow> (digit_val d # ds, r))
     else ([], c # d # cs))"

definition digitpart :: "string \<Rightarrow> (nat list \<times> string) option" where
  "digitpart s =
    (case s of
       [] \<Rightarrow> None
     | c # cs \<Rightarrow>
         if is_digit c then (case more_digits cs of (ds, r) \<Rightarrow> Some (digit_val c # ds, r))
         else None)"

text \<open>\<open>[digitpart] "." digitpart | digitpart ["."]\<close>: integer digits, fraction digits, rest.\<close>

definition number :: "string \<Rightarrow> (nat list \<times> nat list \<times> string) option" where
  "number s =
    (case digitpart s of
       Some (ip, r) \<Rightarrow>
         (case r of
            [] \<Rightarrow> Some (ip, [], [])
          | c # r' \<Rightarrow>
              if c = CHR ''.'' then
                (case digitpart r' of
                   Some (fp, r'') \<Rightarrow> Some (ip, fp, r'')
                 | None \<Rightarrow> Some (ip, [], r'))
              else Some (ip, [], r))
     | None \<Rightarrow>
         (case s of
            [] \<Rightarrow> None
          | c # r' \<Rightarrow>
              if c = CHR ''.'' then
                (case digitpart r' of
                   Some (fp, r'') \<Rightarrow> Some ([], fp, r'')
                 | None \<Rightarrow> None)
              else None))"

definition split_sign :: "string \<Rightarrow> bool \<times> string" where
  "split_sign s =
    (case s of
       [] \<Rightarrow> (False, s)
     | c # r \<Rightarrow>
         if c = CHR ''-'' then (True, r) else if c = CHR ''+'' then (False, r) else (False, s))"

definition nat_of_digits :: "nat list \<Rightarrow> nat" where
  "nat_of_digits ds = foldl (\<lambda>a d. 10 * a + d) 0 ds"

text \<open>The exponent that ends the text, if any: \<open>("e" | "E") [sign] digitpart\<close>.\<close>

definition exponent :: "string \<Rightarrow> int option" where
  "exponent s =
    (case s of
       [] \<Rightarrow> Some 0
     | c # r \<Rightarrow>
         if c \<in> set ''eE'' then
           (case split_sign r of
              (neg, r') \<Rightarrow>
                (case digitpart r' of
                   Some (ds, rest) \<Rightarrow>
                     if rest = [] then
                       Some (if neg then - int (nat_of_digits ds) else int (nat_of_digits ds))
                     else None
                 | None \<Rightarrow> None))
         else None)"

definition letters :: "string list \<Rightarrow> string \<Rightarrow> bool" where
  "letters pat s \<longleftrightarrow> list_all2 (\<lambda>c p. c \<in> set p) s pat"

definition is_inf :: "string \<Rightarrow> bool" where
  "is_inf s \<longleftrightarrow>
     letters [''iI'', ''nN'', ''fF''] s \<or>
     letters [''iI'', ''nN'', ''fF'', ''iI'', ''nN'', ''iI'', ''tT'', ''yY''] s"

definition is_nan :: "string \<Rightarrow> bool" where
  "is_nan s \<longleftrightarrow> letters [''nN'', ''aA'', ''nN''] s"

definition scale10 :: "real \<Rightarrow> int \<Rightarrow> real" where
  "scale10 m e = (if 0 \<le> e then m * 10 ^ nat e else m / 10 ^ nat (- e))"

definition float_of_string :: "string \<Rightarrow> pyfloat option" where
  "float_of_string s =
    (case split_sign (strip s) of
       (neg, r) \<Rightarrow>
         if is_inf r then Some (if neg then NegInf else PosInf)
         else if is_nan r then Some NaN
         else
           (case number r of
              None \<Rightarrow> None
            | Some (ip, fp, r') \<Rightarrow>
                (case exponent r' of
                   None \<Rightarrow> None
                 | Some e \<Rightarrow>
                     Some (Fin ((if neg then - 1 else 1) *
                       scale10 (real (nat_of_digits (ip @ fp))) (e - int (length fp)))))))"

text \<open>
  \<open>float(x)\<close> raises TypeError on \<open>None\<close>, ValueError on a text outside the grammar and
  OverflowError on an integer that rounds beyond the largest binary64 value.
\<close>

fun py_float :: "pyval \<Rightarrow> error + pyfloat" where
  "py_float PyNone = Inl TypeError"
| "py_float (PyStr s) = (case float_of_string s of None \<Rightarrow> Inl ValueError | Some x \<Rightarrow> Inr x)"
| "py_float (PyNum (PyInt i)) =
    (if \<bar>i\<bar> < 2 ^ 1024 - 2 ^ 970 then Inr (Fin (real_of_int i)) else Inl OverflowError)"
| "py_float (PyNum (PyFloat x)) = Inr x"

subsection \<open>The process state\<close>

text \<open>
  One row of the history: the dictionary built in \<open>dispatch_incident\<close>, one field per key.
  Officers and equipment are stored as the joined texts, the location as formatted text.
\<close>

record incident =
  Incident :: pyval
  Location :: string
  Severity :: pyval
  Vehicle :: string
  Officers :: string
  Route :: string
  ETA_min :: int
  Equipment_Used :: string
  Water_Used_L :: pynum

type_synonym latlon = "pyfloat \<times> pyfloat"

datatype layer =
  is_AntPath: AntPath (locations: "latlon list") (color: string) (weight: nat)
| is_Marker: Marker (position: latlon) (tooltip: string) (icon_color: string)

record folium_map =
  location :: latlon
  zoom_start :: nat
  children :: "layer list"

text \<open>
  What a call can change: the module-level list \<open>incident_log\<close>, the state of the module
  \<open>random\<close> (the numbers it will still deliver), the files written, and the seconds
  spent in \<open>time.sleep\<close>.
\<close>

record world =
  incident_log :: "incident list"
  random_source :: "nat \<Rightarrow> nat"
  files :: "string \<Rightarrow> folium_map option"
  slept :: nat

definition sleep :: "nat \<Rightarrow> world \<Rightarrow> world" where
  "sleep secs w = w\<lparr>slept := slept w + secs\<rparr>"

subsection \<open>Randomness\<close>

text \<open>
  The next number of the source, reduced below \<open>n\<close>: every value below \<open>n\<close> can come
  out. \<open>random.choice\<close> raises IndexError on an empty sequence; \<open>random.randint a b\<close>
  is \<open>a\<close> plus a number below \<open>b - a + 1\<close>.
\<close>

definition randbelow :: "nat \<Rightarrow> world \<Rightarrow> nat \<times> world" where
  "randbelow n w =
    (random_source w 0 mod n, w\<lparr>random_source := (\<lambda>i. random_source w (Suc i))\<rparr>)"

definition random_choice :: "'a list \<Rightarrow> world \<Rightarrow> (error + 'a) \<times> world" where
  "random_choice xs w =
    (if xs = [] then (Inl IndexError, w)
     else (case randbelow (length xs) w of (i, w') \<Rightarrow> (Inr (xs ! i), w')))"

definition randint :: "int \<Rightarrow> int \<Rightarrow> world \<Rightarrow> int \<times> world" where
  "randint a b w = (case randbelow (nat (b - a + 1)) w of (i, w') \<Rightarrow> (a + int i, w'))"

subsection \<open>Dictionaries in insertion order\<close>

text \<open>\<open>d[k] = v\<close>: a key already present keeps its place and takes the new value.\<close>

fun dict_set :: "('k \<times> 'v) list \<Rightarrow> 'k \<Rightarrow> 'v \<Rightarrow> ('k \<times> 'v) list" where
  "dict_set [] k v = [(k, v)]"
| "dict_set ((k', v') # d) k v =
    (if k' = k then (k, v) # d else (k', v') # dict_set d k v)"

text \<open>
  \<open>{eq: random.randint(1,3) for eq in equipment}\<close>: the loop of the comprehension,
  drawing one number for each element, also for a repeated one.
\<close>

fun comprehension :: "string list \<Rightarrow> (string \<times> int) list \<Rightarrow> world \<Rightarrow> (string \<times> int) list \<times> world" where
  "comprehension [] d w = (d, w)"
| "comprehension (eq # rest) d w =
    (case randint 1 3 w of (n, w') \<Rightarrow> comprehension rest (dict_set d eq n) w')"

definition equipment_count :: "string list \<Rightarrow> world \<Rightarrow> (string \<times> int) list \<times> world" where
  "equipment_count equipment w = comprehension equipment [] w"

subsection \<open>Charts\<close>

text \<open>
  An image is modelled by the figure it is rendered from: what the calls on the axes put
  there. Encoding as PNG and reading it back are not modelled.
\<close>

datatype xval = Category string | Index nat

record text_item =
  text_x :: real
  text_y :: real
  text_s :: string
  ha :: string
  va :: string

record figure =
  figsize :: "nat \<times> nat"
  bars :: "(xval \<times> pynum) list"
  bar_color :: string
  title :: string
  xlabel :: string
  ylabel :: string
  texts :: "text_item list"
  xticks_rotation :: nat
  tight_layout :: bool

definition subplots :: "nat \<times> nat \<Rightarrow> figure" where
  "subplots dims =
    \<lparr>figsize = dims, bars = [], bar_color = [], title = [], xlabel = [], ylabel = [],
     texts = [], xticks_rotation = 0, tight_layout = False\<rparr>"

definition generate_equipment_chart :: "(string \<times> int) list \<Rightarrow> figure" where
  "generate_equipment_chart equipment_counts =
    (subplots (5, 3))
      \<lparr>bars := map (\<lambda>(k, v). (Category k, PyInt v)) equipment_counts,
       bar_color := ''tomato'',
       title := TOOLBOX @ '' Equipment Usage'',
       ylabel := ''Units Used'',
       xticks_rotation := 15,
       tight_layout := True\<rparr>"

text \<open>
  The data frame of a list of rows is empty exactly when the list is: every row has the
  nine columns.
\<close>

definition generate_water_chart :: "incident list \<Rightarrow> figure" where
  "generate_water_chart log' =
    (if log' = [] then
       (subplots (5, 3))
         \<lparr>texts := [\<lparr>text_x = 0.5, text_y = 0.5, text_s = ''No Incidents Yet'',
                     ha = ''center'', va = ''center''\<rparr>]\<rparr>
     else
       (subplots (5, 3))
         \<lparr>bars := map (\<lambda>(i, r). (Index i, Water_Used_L r)) (enumerate 0 log'),
          bar_color := ''blue'',
          title := DROPLET @ '' Water Usage per Incident'',
          ylabel := ''Liters'',
          xlabel := ''Incident #'',
          tight_layout := True\<rparr>)"

subsection \<open>The map of the vehicle movement\<close>

text \<open>
  The map library checks every coordinate pair it is given and raises ValueError on a
  NaN; the other floats are accepted.
\<close>

definition validate_location :: "latlon \<Rightarrow> error + latlon" where
  "validate_location p = (if fst p = NaN \<or> snd p = NaN then Inl ValueError else Inr p)"

fun validate_locations :: "latlon list \<Rightarrow> error + latlon list" where
  "validate_locations [] = Inr []"
| "validate_locations (p # ps) =
    (case validate_location p of
       Inl e \<Rightarrow> Inl e
     | Inr q \<Rightarrow> (case validate_locations ps of Inl e \<Rightarrow> Inl e | Inr qs \<Rightarrow> Inr (q # qs)))"

definition add_to :: "layer \<Rightarrow> folium_map \<Rightarrow> folium_map" where
  "add_to l m = m\<lparr>children := children m @ [l]\<rparr>"

definition save :: "folium_map \<Rightarrow> string \<Rightarrow> world \<Rightarrow> world" where
  "save m path w = w\<lparr>files := (files w)(path \<mapsto> m)\<rparr>"

definition generate_map :: "pyval \<Rightarrow> pyval \<Rightarrow> world \<Rightarrow> (error + string) \<times> world" where
  "generate_map lat lon w =
    (case py_float lat of
       Inl e \<Rightarrow> (Inl e, w)
     | Inr lat' \<Rightarrow>
    (case py_float lon of
       Inl e \<Rightarrow> (Inl e, w)
     | Inr lon' \<Rightarrow>
    (let station = (Fin 12.9716, Fin 77.5946) in
     case validate_location station of
       Inl e \<Rightarrow> (Inl e, w)
     | Inr centre \<Rightarrow>
    (let m = \<lparr>location = centre, zoom_start = 13, children = []\<rparr> in
     case validate_locations [station, (lat', lon')] of
       Inl e \<Rightarrow> (Inl e, w)
     | Inr line \<Rightarrow>
    (let m = add_to (AntPath line ''red'' 5) m in
     case validate_location station of
       Inl e \<Rightarrow> (Inl e, w)
     | Inr p \<Rightarrow>
    (let m = add_to (Marker p ''Fire Station'' ''green'') m in
     case validate_location (lat', lon') of
       Inl e \<Rightarrow> (Inl e, w)
     | Inr p \<Rightarrow>
    (let m = add_to (Marker p ''Incident Location'' ''red'') m;
         map_path = ''/tmp/map.html''
     in (Inr map_path, save m map_path w))))))))"

subsection \<open>Dispatch logic with timeline\<close>

text \<open>The f-string of the dispatch report, one line of the source after the other.\<close>

definition report_text ::
  "(pyfloat \<Rightarrow> string) \<Rightarrow> pyval \<Rightarrow> pyval \<Rightarrow> pyval \<Rightarrow> pyval \<Rightarrow> string \<Rightarrow> string \<Rightarrow>
   string \<Rightarrow> int \<Rightarrow> string list \<Rightarrow> pynum \<Rightarrow> string \<Rightarrow> string" where
  "report_text repr incident_type latitude longitude severity vehicle officers route eta
     equipment water_used_liters stage_msg =
    NL @
    concat (replicate 8 HEAVY_HORIZONTAL) @ '' '' @ REVOLVING_LIGHT @
      '' INCIDENT RESPONSE REPORT '' @ concat (replicate 8 HEAVY_HORIZONTAL) @ NL @
    NL @
    FIRE @ '' Incident Type : '' @ py_str repr incident_type @ NL @
    PUSHPIN @ '' Location      : '' @ py_str repr latitude @ '', '' @
      py_str repr longitude @ NL @
    WARNING_SIGN @ '' Severity      : '' @ py_str repr severity @ NL @
    NL @
    FIRE_ENGINE @ '' Vehicle       : '' @ vehicle @ NL @
    MAN @ ZWJ @ FIRE_ENGINE @ '' Officers    : '' @ officers @ NL @
    NL @
    MOTORWAY @ '' AI Route      : '' @ route @ NL @
    STOPWATCH @ '' ETA           : '' @ str_int eta @ '' minutes'' @ NL @
    NL @
    TOOLBOX @ '' Equipment Used:'' @ NL @
    join '', '' equipment @ NL @
    DROPLET @ '' Water Used: '' @ py_str repr (PyNum water_used_liters) @ '' Liters'' @ NL @
    NL @
    CLOCK_THREE @ '' Timeline:'' @ NL @
    stage_msg @ NL @
    NL @
    CHECK_MARK @ '' Status: INCIDENT SUCCESSFULLY RESOLVED'' @ NL @
    concat (replicate 44 HEAVY_HORIZONTAL) @ NL"

text \<open>The five values the handler returns.\<close>

record outputs =
  report :: string
  df :: "incident list"
  eq_chart :: figure
  water_chart :: figure
  map_path :: string

text \<open>
  The handler, statement by statement. Every statement that can raise is a \<open>case\<close>
  whose \<open>Inl\<close> branch leaves with the error and the state reached so far; the equipment
  is a list of texts and the water a number, as the form delivers them.
\<close>

definition dispatch_incident ::
  "(pyfloat \<Rightarrow> string) \<Rightarrow> pyval \<Rightarrow> pyval \<Rightarrow> pyval \<Rightarrow> pyval \<Rightarrow> string list \<Rightarrow> pynum \<Rightarrow>
   world \<Rightarrow> (error + outputs) \<times> world" where
  "dispatch_incident repr incident_type severity latitude longitude equipment
     water_used_liters w =
    (let stage_msg = REVOLVING_LIGHT @ '' Dispatched: Vehicle is on the way...'';
         w = sleep 1 w
     in
     case random_choice (map fst vehicles) w of
       (Inl e, w) \<Rightarrow> (Inl e, w)
     | (Inr vehicle, w) \<Rightarrow>
    (case map_of vehicles vehicle of
       None \<Rightarrow> (Inl KeyError, w)
     | Some crew \<Rightarrow>
    (let officers = join '', '' crew;
         (route, eta) = ai_route severity
     in
     case equipment_count equipment w of
       (counts, w) \<Rightarrow>
    (let stage_msg = stage_msg @ NL @ YELLOW_CIRCLE @
           '' On Scene: Firefighters reached incident site...'';
         w = sleep 1 w;
         rec = \<lparr>Incident = incident_type,
                Location = py_str repr latitude @ '', '' @ py_str repr longitude,
                Severity = severity,
                Vehicle = vehicle,
                Officers = officers,
                Route = route,
                ETA_min = eta,
                Equipment_Used = join '', '' equipment,
                Water_Used_L = water_used_liters\<rparr>;
         w = w\<lparr>incident_log := incident_log w @ [rec]\<rparr>;
         df = incident_log w;
         stage_msg = stage_msg @ NL @ GREEN_CIRCLE @
           '' Resolved: Incident cleared successfully!'';
         w = sleep 1 w;
         eq_chart = generate_equipment_chart counts;
         water_chart = generate_water_chart (incident_log w);
         report = report_text repr incident_type latitude longitude severity vehicle
           officers route eta equipment water_used_liters stage_msg
     in
     case generate_map latitude longitude w of
       (Inl e, w) \<Rightarrow> (Inl e, w)
     | (Inr path, w) \<Rightarrow>
         (Inr \<lparr>report = report, df = df, eq_chart = eq_chart, water_chart = water_chart,
               map_path = path\<rparr>, w)))))"

text \<open>The state of a fresh process: an empty log, nothing written, no time spent.\<close>

definition initial_world :: "(nat \<Rightarrow> nat) \<Rightarrow> world" where
  "initial_world rs = \<lparr>incident_log = [], random_source = rs, files = Map.empty, slept = 0\<rparr>"

subsection \<open>Sessions\<close>

text \<open>
  What a session can do to the process state: it calls the handler (the button of the
  form), or one of the module's other functions directly. The results are dropped here;
  only the state is carried on. \<open>ai_route\<close> and the chart functions take and return no
  state at all.
\<close>

datatype operation =
  is_Call_dispatch: Call_dispatch pyval pyval pyval pyval "string list" pynum
| Call_route pyval
| Call_equipment_chart "(string \<times> int) list"
| Call_water_chart "incident list"
| Call_map pyval pyval

fun step :: "(pyfloat \<Rightarrow> string) \<Rightarrow> operation \<Rightarrow> world \<Rightarrow> world" where
  "step repr (Call_dispatch incident_type severity latitude longitude equipment water) w =
    snd (dispatch_incident repr incident_type severity latitude longitude equipment water w)"
| "step repr (Call_route severity) w = w"
| "step repr (Call_equipment_chart counts) w = w"
| "step repr (Call_water_chart rows) w = w"
| "step repr (Call_map lat lon) w = snd (generate_map lat lon w)"

definition session :: "(pyfloat \<Rightarrow> string) \<Rightarrow> operation list \<Rightarrow> world \<Rightarrow> world" where
  "session repr ops w = fold (step repr) ops w"

text \<open>
  What the history shows of a call of the handler: the row holds the arguments as passed
  (the coordinates formatted into the location, the equipment joined), the route and the
  time of arrival of the severity, and one of the vehicles with its officers.
\<close>

definition recorded :: "(pyfloat \<Rightarrow> string) \<Rightarrow> operation \<Rightarrow> incident \<Rightarrow> bool" where
  "recorded repr op r =
    (case op of
       Call_dispatch incident_type severity latitude longitude equipment water \<Rightarrow>
         Incident r = incident_type \<and>
         Location r = py_str repr latitude @ '', '' @ py_str repr longitude \<and>
         Severity r = severity \<and>
         list_ex (\<lambda>(v, crew). Vehicle r = v \<and> Officers r = join '', '' crew) vehicles \<and>
         (Route r, ETA_min r) = ai_route severity \<and>
         Equipment_Used r = join '', '' equipment \<and>
         Water_Used_L r = water
     | _ \<Rightarrow> False)"

text \<open>
  The invariant that the data model of the specification states for a stored row, read on
  the fields of the row: the vehicle is a key of the roster, the severity one of the
  three levels, and the equipment text the joined labels of a selection from the
  catalogue.
\<close>

definition spec_row_invariant :: "incident \<Rightarrow> bool" where
  "spec_row_invariant r \<longleftrightarrow>
     Vehicle r \<in> set (map fst vehicles) \<and>
     Severity r \<in> {PyStr ''Low'', PyStr ''Medium'', PyStr ''High''} \<and>
     (\<exists>selection. set selection \<subseteq> set equipment_list \<and>
        Equipment_Used r = join '', '' selection)"

text \<open>
  A printing of floats for the places where a concrete call is evaluated: the two
  coordinates of the sample call, and a mark for every other float.
\<close>

definition sample_repr :: "pyfloat \<Rightarrow> string" where
  "sample_repr x =
    (if x = Fin 12.9756 then ''12.9756'' else if x = Fin 77.5950 then ''77.595''
     else ''<float>'')"

text \<open>
  A session of two calls of the handler; the second has a latitude that is no number.
\<close>

definition sample_session :: "operation list" where
  "sample_session =
    [Call_dispatch (PyStr ''Building Fire'') (PyStr ''High'') (PyStr ''12.9756'')
       (PyStr ''77.5950'') [FIRE_EXTINGUISHER @ '' Fire Extinguisher''] (PyInt 500),
     Call_dispatch (PyStr ''Road Accident'') (PyStr ''Low'') (PyStr ''abc'')
       (PyStr ''77.5950'') [] (PyInt 20)]"


section \<open>Properties of the building blocks\<close>

subsection \<open>Randomness and the allocation of equipment\<close>

lemma randbelow_frame:
  "randbelow n w = (i, w') \<Longrightarrow>
     incident_log w' = incident_log w \<and> files w' = files w \<and> slept w' = slept w"
  by (auto simp: randbelow_def)

lemma randbelow_less: "0 < n \<Longrightarrow> randbelow n w = (i, w') \<Longrightarrow> i < n"
  by (auto simp: randbelow_def)

lemma random_choice_nonempty:
  assumes "xs \<noteq> []"
  obtains x w' where "random_choice xs w = (Inr x, w')" "x \<in> set xs"
    "incident_log w' = incident_log w" "files w' = files w" "slept w' = slept w"
proof -
  obtain i w' where r: "randbelow (length xs) w = (i, w')" by (cases "randbelow (length xs) w")
  with assms have "i < length xs" using randbelow_less [of "length xs" w i w'] by simp
  with r assms randbelow_frame [OF r] that [of "xs ! i" w'] show thesis
    by (simp add: random_choice_def)
qed

lemma randint_1_3:
  "randint 1 3 w = (n, w') \<Longrightarrow>
     1 \<le> n \<and> n \<le> 3 \<and> incident_log w' = incident_log w \<and> files w' = files w \<and> slept w' = slept w"
  by (auto simp: randint_def randbelow_def split: prod.splits)

lemma dict_set_map_fst:
  "map fst (dict_set d k v) = (if k \<in> fst ` set d then map fst d else map fst d @ [k])"
  by (induction d) (force simp: image_iff)+

lemma dict_set_keys: "fst ` set (dict_set d k v) = insert k (fst ` set d)"
proof -
  have "set (map fst (dict_set d k v)) = insert k (set (map fst d))"
    unfolding dict_set_map_fst by auto
  then show ?thesis by simp
qed

lemma dict_set_values: "snd ` set (dict_set d k v) \<subseteq> insert v (snd ` set d)"
proof (induction d)
  case Nil
  then show ?case by simp
next
  case (Cons p d)
  then show ?case by (cases p) (auto simp: image_iff split: if_splits)
qed

lemma dict_set_distinct: "distinct (map fst d) \<Longrightarrow> distinct (map fst (dict_set d k v))"
  unfolding dict_set_map_fst by auto

lemma comprehension_props:
  "comprehension eqs d w = (d', w') \<Longrightarrow>
     fst ` set d' = fst ` set d \<union> set eqs \<and>
     snd ` set d' \<subseteq> snd ` set d \<union> {1, 2, 3} \<and>
     (distinct (map fst d) \<longrightarrow> distinct (map fst d')) \<and>
     incident_log w' = incident_log w \<and> files w' = files w \<and> slept w' = slept w"
proof (induction eqs arbitrary: d w)
  case Nil
  then show ?case by auto
next
  case (Cons eq rest)
  obtain n w1 where r: "randint 1 3 w = (n, w1)" by (cases "randint 1 3 w")
  from randint_1_3 [OF r] have n: "n \<in> {1, 2, 3}"
    and fr: "incident_log w1 = incident_log w" "files w1 = files w" "slept w1 = slept w"
    by auto
  from Cons.prems r have "comprehension rest (dict_set d eq n) w1 = (d', w')" by simp
  from Cons.IH [OF this] have ih:
    "fst ` set d' = fst ` set (dict_set d eq n) \<union> set rest"
    "snd ` set d' \<subseteq> snd ` set (dict_set d eq n) \<union> {1, 2, 3}"
    "distinct (map fst (dict_set d eq n)) \<longrightarrow> distinct (map fst d')"
    "incident_log w' = incident_log w1" "files w' = files w1" "slept w' = slept w1"
    by blast+
  have 1: "fst ` set d' = fst ` set d \<union> set (eq # rest)"
    using ih(1) by (simp add: dict_set_keys)
  have 2: "snd ` set d' \<subseteq> snd ` set d \<union> {1, 2, 3}"
    using ih(2) dict_set_values [of d eq n] n by blast
  have 3: "distinct (map fst d) \<longrightarrow> distinct (map fst d')"
    using ih(3) by (simp add: dict_set_distinct)
  from 1 2 3 ih(4-6) fr show ?case by simp
qed

subsection \<open>The map\<close>

lemma validate_location_ok: "fst p \<noteq> NaN \<Longrightarrow> snd p \<noteq> NaN \<Longrightarrow> validate_location p = Inr p"
  by (simp add: validate_location_def)

lemma generate_map_unfold:
  "generate_map lat lon w =
    (case py_float lat of
       Inl e \<Rightarrow> (Inl e, w)
     | Inr a \<Rightarrow>
         (case py_float lon of
            Inl e \<Rightarrow> (Inl e, w)
          | Inr b \<Rightarrow>
              if a = NaN \<or> b = NaN then (Inl ValueError, w)
              else
                (Inr ''/tmp/map.html'',
                 w\<lparr>files := (files w)(''/tmp/map.html'' \<mapsto>
                   \<lparr>location = (Fin 12.9716, Fin 77.5946), zoom_start = 13,
                    children =
                      [AntPath [(Fin 12.9716, Fin 77.5946), (a, b)] ''red'' 5,
                       Marker (Fin 12.9716, Fin 77.5946) ''Fire Station'' ''green'',
                       Marker (a, b) ''Incident Location'' ''red'']\<rparr>)\<rparr>)))"
  by (simp add: generate_map_def validate_location_def add_to_def save_def Let_def
      split: sum.splits)

lemma generate_map_frame:
  "generate_map lat lon w = (r, w') \<Longrightarrow>
     incident_log w' = incident_log w \<and> slept w' = slept w \<and>
     random_source w' = random_source w"
  unfolding generate_map_unfold by (auto split: sum.splits if_splits)

lemma generate_map_error: "generate_map lat lon w = (Inl e, w') \<Longrightarrow> w' = w"
  unfolding generate_map_unfold by (auto split: sum.splits if_splits)

lemma map_of_vehicles:
  "v \<in> set (map fst vehicles) \<Longrightarrow> \<exists>crew. map_of vehicles v = Some crew"
  by (cases "map_of vehicles v") (auto simp: map_of_eq_None_iff)




lemma generate_map_refuses:
  assumes "py_float lat = Inl e \<or> (\<exists>a. py_float lat = Inr a \<and> py_float lon = Inl e)"
  shows "generate_map lat lon w = (Inl e, w)"
  unfolding generate_map_unfold using assms by auto

lemma generate_map_cases:
  obtains (accepted) a b where "py_float lat = Inr a" "py_float lon = Inr b" "a \<noteq> NaN" "b \<noteq> NaN"
  | (refused) e where "generate_map lat lon w = (Inl e, w)"
    "py_float lat = Inl e \<or> py_float lon = Inl e \<or>
     (\<exists>a b. py_float lat = Inr a \<and> py_float lon = Inr b \<and> (a = NaN \<or> b = NaN))"
proof (cases "py_float lat")
  case (Inl e)
  then show ?thesis using refused [of e] generate_map_refuses [of lat e lon w] by simp
next
  case a: (Inr a)
  show ?thesis
  proof (cases "py_float lon")
    case (Inl e)
    then show ?thesis using a refused [of e] generate_map_refuses [of lat e lon w] by simp
  next
    case b: (Inr b)
    show ?thesis
    proof (cases "a = NaN \<or> b = NaN")
      case True
      then have "generate_map lat lon w = (Inl ValueError, w)"
        unfolding generate_map_unfold using a b by simp
      then show ?thesis using refused [of ValueError] a b True by blast
    next
      case False
      then show ?thesis using accepted [of a b] a b by simp
    qed
  qed
qed

subsection \<open>The handler\<close>

lemma dispatch_incident_unfold:
  obtains r crew counts out w2 where
    "Incident r = incident_type"
    "Location r = py_str repr latitude @ '', '' @ py_str repr longitude"
    "Severity r = severity"
    "Vehicle r \<in> set (map fst vehicles)"
    "map_of vehicles (Vehicle r) = Some crew"
    "Officers r = join '', '' crew"
    "Route r = fst (ai_route severity)"
    "ETA_min r = snd (ai_route severity)"
    "Equipment_Used r = join '', '' equipment"
    "Water_Used_L r = water"
    "fst ` set counts = set equipment"
    "snd ` set counts \<subseteq> {1, 2, 3}"
    "incident_log w2 = incident_log w @ [r]"
    "files w2 = files w"
    "slept w2 = slept w + 3"
    "report out =
       report_text repr incident_type latitude longitude severity (Vehicle r) (Officers r)
         (Route r) (ETA_min r) equipment water
         (REVOLVING_LIGHT @ '' Dispatched: Vehicle is on the way...'' @ NL @
          YELLOW_CIRCLE @ '' On Scene: Firefighters reached incident site...'' @ NL @
          GREEN_CIRCLE @ '' Resolved: Incident cleared successfully!'')"
    "df out = incident_log w @ [r]"
    "eq_chart out = generate_equipment_chart counts"
    "water_chart out = generate_water_chart (incident_log w @ [r])"
    "dispatch_incident repr incident_type severity latitude longitude equipment water w =
      (case generate_map latitude longitude w2 of
         (Inl e, w') \<Rightarrow> (Inl e, w')
       | (Inr path, w') \<Rightarrow> (Inr (out\<lparr>map_path := path\<rparr>), w'))"
proof -
  have ne: "map fst vehicles \<noteq> []" by (simp add: vehicles_def)
  obtain vehicle wa where
    c: "random_choice (map fst vehicles) (sleep 1 w) = (Inr vehicle, wa)"
    and v: "vehicle \<in> set (map fst vehicles)"
    and fa: "incident_log wa = incident_log (sleep 1 w)" "files wa = files (sleep 1 w)"
      "slept wa = slept (sleep 1 w)"
    using random_choice_nonempty [OF ne, of "sleep 1 w"] by blast
  obtain crew where m: "map_of vehicles vehicle = Some crew"
    using map_of_vehicles [OF v] by blast
  obtain counts wb where q: "equipment_count equipment wa = (counts, wb)"
    by (cases "equipment_count equipment wa")
  then have "comprehension equipment [] wa = (counts, wb)" by (simp add: equipment_count_def)
  from comprehension_props [OF this]
  have k: "fst ` set counts = set equipment" "snd ` set counts \<subseteq> {1, 2, 3}"
    and fb: "incident_log wb = incident_log wa" "files wb = files wa" "slept wb = slept wa"
    by auto
  define r where "r =
    \<lparr>Incident = incident_type,
     Location = py_str repr latitude @ '', '' @ py_str repr longitude,
     Severity = severity, Vehicle = vehicle, Officers = join '', '' crew,
     Route = fst (ai_route severity), ETA_min = snd (ai_route severity),
     Equipment_Used = join '', '' equipment, Water_Used_L = water\<rparr>"
  define w2 where "w2 = sleep 1 ((sleep 1 wb)\<lparr>incident_log := incident_log w @ [r]\<rparr>)"
  define out where "out =
    \<lparr>report =
       report_text repr incident_type latitude longitude severity vehicle (join '', '' crew)
         (fst (ai_route severity)) (snd (ai_route severity)) equipment water
         (REVOLVING_LIGHT @ '' Dispatched: Vehicle is on the way...'' @ NL @
          YELLOW_CIRCLE @ '' On Scene: Firefighters reached incident site...'' @ NL @
          GREEN_CIRCLE @ '' Resolved: Incident cleared successfully!''),
     df = incident_log w @ [r],
     eq_chart = generate_equipment_chart counts,
     water_chart = generate_water_chart (incident_log w @ [r]),
     map_path = []\<rparr>"
  have wb_log: "incident_log wb = incident_log w" using fa fb by (simp add: sleep_def)
  have sleep_log: "\<And>n v. incident_log (sleep n v) = incident_log v" by (simp add: sleep_def)
  have sel_upd: "\<And>v X. incident_log (v\<lparr>incident_log := X\<rparr>) = X" by simp
  have out_upd: "\<And>a b c d e p.
    \<lparr>report = a, df = b, eq_chart = c, water_chart = d, map_path = e\<rparr>\<lparr>map_path := p\<rparr> =
    \<lparr>report = a, df = b, eq_chart = c, water_chart = d, map_path = p\<rparr>" by simp
  have main: "dispatch_incident repr incident_type severity latitude longitude equipment water w =
      (case generate_map latitude longitude w2 of
         (Inl e, w') \<Rightarrow> (Inl e, w')
       | (Inr path, w') \<Rightarrow> (Inr (out\<lparr>map_path := path\<rparr>), w'))"
    unfolding dispatch_incident_def Let_def w2_def out_def r_def
    by (simp only: c m q prod.case sum.case option.case case_prod_beta fst_conv snd_conv
        sleep_log wb_log sel_upd out_upd append_assoc cong: sum.case_cong)
  have rsel: "Incident r = incident_type"
    "Location r = py_str repr latitude @ '', '' @ py_str repr longitude"
    "Severity r = severity" "Vehicle r = vehicle" "Officers r = join '', '' crew"
    "Route r = fst (ai_route severity)" "ETA_min r = snd (ai_route severity)"
    "Equipment_Used r = join '', '' equipment" "Water_Used_L r = water"
    by (simp_all add: r_def)
  have w2sel: "incident_log w2 = incident_log w @ [r]" "files w2 = files w"
    "slept w2 = slept w + 3"
    using fa fb by (simp_all add: w2_def sleep_def)
  have osel: "report out =
       report_text repr incident_type latitude longitude severity (Vehicle r) (Officers r)
         (Route r) (ETA_min r) equipment water
         (REVOLVING_LIGHT @ '' Dispatched: Vehicle is on the way...'' @ NL @
          YELLOW_CIRCLE @ '' On Scene: Firefighters reached incident site...'' @ NL @
          GREEN_CIRCLE @ '' Resolved: Incident cleared successfully!'')"
    "df out = incident_log w @ [r]"
    "eq_chart out = generate_equipment_chart counts"
    "water_chart out = generate_water_chart (incident_log w @ [r])"
    unfolding rsel by (simp_all only: out_def outputs.simps)
  show thesis
    by (rule that [of r crew counts w2 out])
      (use rsel v m k w2sel osel main in \<open>simp_all only:\<close>)
qed

subsection \<open>What a call of the handler leaves behind\<close>

lemma dispatch_incident_snd:
  assumes "dispatch_incident repr it sev lat lon eq wat w =
      (case generate_map lat lon w2 of
         (Inl e, w') \<Rightarrow> (Inl e, w')
       | (Inr path, w') \<Rightarrow> (Inr (out\<lparr>map_path := path\<rparr>), w'))"
  shows "snd (dispatch_incident repr it sev lat lon eq wat w) = snd (generate_map lat lon w2)"
  unfolding assms by (cases "generate_map lat lon w2") (auto split: sum.splits)

lemma dispatch_incident_log:
  obtains r where
    "incident_log (snd (dispatch_incident repr it sev lat lon eq wat w)) = incident_log w @ [r]"
    "recorded repr (Call_dispatch it sev lat lon eq wat) r"
proof -
  obtain r crew counts out w2 where r:
    "Incident r = it" "Location r = py_str repr lat @ '', '' @ py_str repr lon"
    "Severity r = sev" "Vehicle r \<in> set (map fst vehicles)"
    "map_of vehicles (Vehicle r) = Some crew" "Officers r = join '', '' crew"
    "Route r = fst (ai_route sev)" "ETA_min r = snd (ai_route sev)"
    "Equipment_Used r = join '', '' eq" "Water_Used_L r = wat"
    and l: "incident_log w2 = incident_log w @ [r]"
    and d: "dispatch_incident repr it sev lat lon eq wat w =
      (case generate_map lat lon w2 of
         (Inl e, w') \<Rightarrow> (Inl e, w')
       | (Inr path, w') \<Rightarrow> (Inr (out\<lparr>map_path := path\<rparr>), w'))"
    by (rule dispatch_incident_unfold [where incident_type = it and repr = repr and
          latitude = lat and longitude = lon and severity = sev and equipment = eq and
          water = wat and w = w]) blast
  have "incident_log (snd (generate_map lat lon w2)) = incident_log w2"
    using generate_map_frame [of lat lon w2] by (cases "generate_map lat lon w2") simp
  then have 1: "incident_log (snd (dispatch_incident repr it sev lat lon eq wat w)) =
      incident_log w @ [r]"
    using dispatch_incident_snd [OF d] l by simp
  from r(5) have "(Vehicle r, crew) \<in> set vehicles" by (rule map_of_SomeD)
  then have "list_ex (\<lambda>(v, crew). Vehicle r = v \<and> Officers r = join '', '' crew) vehicles"
    using r(6) by (auto simp: list_ex_iff)
  then have 2: "recorded repr (Call_dispatch it sev lat lon eq wat) r"
    using r by (simp add: recorded_def)
  from 1 2 show thesis by (rule that)
qed





subsection \<open>The report\<close>







subsection \<open>Sessions\<close>

lemma recorded_vehicle:
  "recorded repr (Call_dispatch it sev lat lon eq wat) r \<Longrightarrow> Vehicle r \<in> set (map fst vehicles)"
  by (force simp: recorded_def list_ex_iff)

lemma step_log:
  "\<exists>new. incident_log (step repr op w) = incident_log w @ new \<and>
     list_all2 (recorded repr) (filter is_Call_dispatch [op]) new"
proof (cases op)
  case (Call_dispatch it sev lat lon eq wat)
  obtain r where
    "incident_log (snd (dispatch_incident repr it sev lat lon eq wat w)) = incident_log w @ [r]"
    "recorded repr (Call_dispatch it sev lat lon eq wat) r"
    by (rule dispatch_incident_log)
  with Call_dispatch show ?thesis by (intro exI [of _ "[r]"]) simp
next
  case (Call_map lat lon)
  have "incident_log (snd (generate_map lat lon w)) = incident_log w"
    using generate_map_frame [of lat lon w] by (cases "generate_map lat lon w") simp
  with Call_map show ?thesis by simp
qed simp_all

lemma session_log:
  "\<exists>new. incident_log (session repr ops w) = incident_log w @ new \<and>
     list_all2 (recorded repr) (filter is_Call_dispatch ops) new"
proof (induction ops arbitrary: w)
  case Nil
  then show ?case by (simp add: session_def)
next
  case (Cons op ops)
  obtain new1 where 1: "incident_log (step repr op w) = incident_log w @ new1"
    "list_all2 (recorded repr) (filter is_Call_dispatch [op]) new1"
    using step_log [of repr op w] by blast
  obtain new2 where 2:
    "incident_log (session repr ops (step repr op w)) = incident_log (step repr op w) @ new2"
    "list_all2 (recorded repr) (filter is_Call_dispatch ops) new2"
    using Cons.IH [of "step repr op w"] by blast
  have "filter is_Call_dispatch (op # ops) =
      filter is_Call_dispatch [op] @ filter is_Call_dispatch ops" by simp
  then have "list_all2 (recorded repr) (filter is_Call_dispatch (op # ops)) (new1 @ new2)"
    using 1(2) 2(2) by (simp only: list_all2_appendI)
  moreover have "incident_log (session repr (op # ops) w) = incident_log w @ new1 @ new2"
    using 1(1) 2(1) by (simp add: session_def)
  ultimately show ?case by blast
qed

section \<open>The claims\<close>

subsection \<open>Route policy\<close>

text \<open>
  C2, as stated: for High, Medium and Low, \<open>ai_route\<close> returns exactly the pairs
  ("Emergency Green Corridor", 12), ("Traffic-Aware City Route", 18) and
  ("Normal Shortest Route", 25). The code puts the motorway pictograph and a space in
  front of every label, so the label returned for High is not the documented text.
\<close>

theorem ai_route_documented_labels_counterexample:
  "ai_route (PyStr ''High'') \<noteq> (''Emergency Green Corridor'', 12)"
  by (simp add: ai_route_def MOTORWAY_def)

text \<open>
  C2, amended: for High, Medium and Low, \<open>ai_route\<close> returns the pair of the documented
  label, prefixed by the motorway pictograph and a space, and the documented minutes 12,
  18 and 25. It is a function of the severity alone: it takes no state and returns none,
  so that equal arguments give equal results.
\<close>

theorem ai_route_enum:
  "ai_route (PyStr ''High'') = (MOTORWAY @ '' Emergency Green Corridor'', 12) \<and>
   ai_route (PyStr ''Medium'') = (MOTORWAY @ '' Traffic-Aware City Route'', 18) \<and>
   ai_route (PyStr ''Low'') = (MOTORWAY @ '' Normal Shortest Route'', 25)"
  by (simp add: ai_route_def)

text \<open>
  C10: \<open>ai_route\<close> is total; for every argument other than the texts "High" and
  "Medium" (the empty text, any other text, \<open>None\<close>, a number) it returns the normal
  shortest route and 25 minutes.
\<close>

theorem ai_route_total:
  "severity \<noteq> PyStr ''High'' \<Longrightarrow> severity \<noteq> PyStr ''Medium'' \<Longrightarrow>
   ai_route severity = (MOTORWAY @ '' Normal Shortest Route'', 25)"
  by (simp add: ai_route_def)

theorem ai_route_total_witness:
  "PyStr [] \<noteq> PyStr ''High'' \<and> PyStr [] \<noteq> PyStr ''Medium'' \<and>
   ai_route (PyStr []) = (MOTORWAY @ '' Normal Shortest Route'', 25) \<and>
   PyNone \<noteq> PyStr ''High'' \<and> PyNone \<noteq> PyStr ''Medium'' \<and>
   ai_route PyNone = (MOTORWAY @ '' Normal Shortest Route'', 25)"
  using ai_route_total [of "PyStr []"] ai_route_total [of PyNone] by simp

subsection \<open>Allocation of equipment\<close>

text \<open>
  C6: for every selection, the keys of the dictionary of counts are exactly the selected
  labels, each once, every count lies between 1 and 3, and the empty selection gives the
  empty dictionary.
\<close>

theorem equipment_count_keys_values:
  "fst ` set (fst (equipment_count equipment w)) = set equipment \<and>
   (\<forall>(label, n) \<in> set (fst (equipment_count equipment w)). 1 \<le> n \<and> n \<le> 3) \<and>
   distinct (map fst (fst (equipment_count equipment w))) \<and>
   fst (equipment_count [] w) = []"
proof -
  obtain d w' where c: "comprehension equipment [] w = (d, w')"
    by (cases "comprehension equipment [] w")
  from comprehension_props [OF c]
  have "fst ` set d = set equipment" "snd ` set d \<subseteq> {1, 2, 3}" "distinct (map fst d)"
    by auto
  moreover from this(2) have "\<forall>(label, n) \<in> set d. 1 \<le> n \<and> n \<le> 3" by fastforce
  ultimately show ?thesis using c by (simp add: equipment_count_def)
qed

theorem equipment_count_keys_values_witness:
  "fst ` set (fst (equipment_count [''a'', ''b'', ''a''] (initial_world id))) = {''a'', ''b''} \<and>
   list_all (\<lambda>(label, n). 1 \<le> n \<and> n \<le> 3)
     (fst (equipment_count [''a'', ''b'', ''a''] (initial_world id))) \<and>
   fst (equipment_count [''a'', ''b'', ''a''] (initial_world id)) = [(''a'', 3), (''b'', 2)]"
proof -
  have "fst (equipment_count [''a'', ''b'', ''a''] (initial_world id)) = [(''a'', 3), (''b'', 2)]"
    by (simp add: equipment_count_def randint_def randbelow_def initial_world_def)
  with equipment_count_keys_values [of "[''a'', ''b'', ''a'']" "initial_world id"]
  show ?thesis by (simp add: list_all_iff)
qed

subsection \<open>Water chart\<close>



subsection \<open>Map rendering\<close>



subsection \<open>The history\<close>

text \<open>
  C4: the history is append-only. Whatever a session does (calls of the handler, also
  ones that end with an error, and direct calls of the other functions), the log after it
  is the log before it followed by one row for each call of the handler, in the order of
  the calls, each row holding the arguments of its call. So a fresh process that has
  seen N calls of the handler has a log of length N; the old log is a prefix of the new
  one, and the length never decreases.
\<close>

theorem history_append_only:
  "(\<exists>new. incident_log (session repr ops w) = incident_log w @ new \<and>
      list_all2 (recorded repr) (filter is_Call_dispatch ops) new) \<and>
   (list_all is_Call_dispatch ops \<longrightarrow>
      length (incident_log (session repr ops (initial_world rs))) = length ops \<and>
      list_all2 (recorded repr) ops (incident_log (session repr ops (initial_world rs)))) \<and>
   prefix (incident_log w) (incident_log (session repr ops w)) \<and>
   length (incident_log w) \<le> length (incident_log (session repr ops w))"
proof -
  obtain new where new: "incident_log (session repr ops w) = incident_log w @ new"
    "list_all2 (recorded repr) (filter is_Call_dispatch ops) new"
    using session_log [of repr ops w] by blast
  obtain new0 where new0:
    "incident_log (session repr ops (initial_world rs)) = incident_log (initial_world rs) @ new0"
    "list_all2 (recorded repr) (filter is_Call_dispatch ops) new0"
    using session_log [of repr ops "initial_world rs"] by blast
  have fresh: "incident_log (initial_world rs) = []" by (simp add: initial_world_def)
  have all: "list_all is_Call_dispatch ops \<Longrightarrow> filter is_Call_dispatch ops = ops"
    by (simp add: list_all_iff)
  have "list_all is_Call_dispatch ops \<longrightarrow>
      length (incident_log (session repr ops (initial_world rs))) = length ops \<and>
      list_all2 (recorded repr) ops (incident_log (session repr ops (initial_world rs)))"
    using new0 fresh all by (auto dest: list_all2_lengthD)
  moreover have "prefix (incident_log w) (incident_log (session repr ops w))"
    using new(1) by simp
  moreover have "length (incident_log w) \<le> length (incident_log (session repr ops w))"
    using new(1) by simp
  ultimately show ?thesis using new by blast
qed

theorem history_append_only_witness:
  "list_all is_Call_dispatch sample_session \<and>
   length (incident_log (session sample_repr sample_session (initial_world id))) = 2 \<and>
   map Incident (incident_log (session sample_repr sample_session (initial_world id))) =
     [PyStr ''Building Fire'', PyStr ''Road Accident''] \<and>
   map Water_Used_L (incident_log (session sample_repr sample_session (initial_world id))) =
     [PyInt 500, PyInt 20]"
proof -
  have a: "list_all is_Call_dispatch sample_session" by (simp add: sample_session_def)
  with history_append_only [of sample_repr sample_session "initial_world id" id]
  have "list_all2 (recorded sample_repr) sample_session
      (incident_log (session sample_repr sample_session (initial_world id)))"
    by blast
  then show ?thesis
    using a by (auto simp: sample_session_def list_all2_Cons1 recorded_def)
qed

subsection \<open>The handler\<close>








subsection \<open>The rows stored\<close>

text \<open>
  C8, as stated: every row stored satisfies the invariant of the data model, regardless
  of the inputs. The call with severity "Extreme" and equipment "Ladder" stores a row
  that does not.
\<close>

theorem stored_row_invariant_counterexample:
  "\<not> spec_row_invariant
      (last (incident_log (snd (dispatch_incident sample_repr (PyStr ''Building Fire'')
         (PyStr ''Extreme'') (PyStr ''12.9756'') (PyStr ''77.5950'') [''Ladder'']
         (PyInt 500) (initial_world id)))))"
proof -
  obtain r where
    "incident_log (snd (dispatch_incident sample_repr (PyStr ''Building Fire'')
         (PyStr ''Extreme'') (PyStr ''12.9756'') (PyStr ''77.5950'') [''Ladder'']
         (PyInt 500) (initial_world id))) = incident_log (initial_world id) @ [r]"
    "recorded sample_repr (Call_dispatch (PyStr ''Building Fire'')
         (PyStr ''Extreme'') (PyStr ''12.9756'') (PyStr ''77.5950'') [''Ladder'']
         (PyInt 500)) r"
    by (rule dispatch_incident_log)
  then show ?thesis by (simp add: recorded_def spec_row_invariant_def)
qed

text \<open>
  C8, amended: every call of the handler stores one row, whose vehicle is a key of the
  roster regardless of the inputs, and whose severity and equipment are the ones passed,
  not validated. The row satisfies the invariant of the data model when the severity
  passed is Low, Medium or High and the equipment passed is within the catalogue, and
  such calls preserve the invariant over the whole history.
\<close>

theorem dispatch_stores_inputs_unvalidated:
  "\<exists>r. incident_log (snd (dispatch_incident repr it sev lat lon eq wat w)) =
          incident_log w @ [r] \<and>
        Vehicle r \<in> set (map fst vehicles) \<and>
        Severity r = sev \<and>
        Equipment_Used r = join '', '' eq \<and>
        (sev \<in> {PyStr ''Low'', PyStr ''Medium'', PyStr ''High''} \<and>
         set eq \<subseteq> set equipment_list \<longrightarrow> spec_row_invariant r) \<and>
        (sev \<in> {PyStr ''Low'', PyStr ''Medium'', PyStr ''High''} \<and>
         set eq \<subseteq> set equipment_list \<and>
         (\<forall>x \<in> set (incident_log w). spec_row_invariant x) \<longrightarrow>
         (\<forall>x \<in> set (incident_log (snd (dispatch_incident repr it sev lat lon eq wat w))).
            spec_row_invariant x))"
proof -
  obtain r where l:
    "incident_log (snd (dispatch_incident repr it sev lat lon eq wat w)) = incident_log w @ [r]"
    and rec: "recorded repr (Call_dispatch it sev lat lon eq wat) r"
    by (rule dispatch_incident_log)
  from rec have v: "Vehicle r \<in> set (map fst vehicles)" by (rule recorded_vehicle)
  from rec have s: "Severity r = sev" "Equipment_Used r = join '', '' eq"
    by (simp_all add: recorded_def)
  have i: "spec_row_invariant r"
    if "sev \<in> {PyStr ''Low'', PyStr ''Medium'', PyStr ''High''}" "set eq \<subseteq> set equipment_list"
    unfolding spec_row_invariant_def using v s that by blast
  from l v s i show ?thesis by (intro exI [of _ r]) auto
qed

theorem dispatch_stores_inputs_unvalidated_witness:
  "PyStr ''High'' \<in> {PyStr ''Low'', PyStr ''Medium'', PyStr ''High''} \<and>
   set [FIRE_EXTINGUISHER @ '' Fire Extinguisher''] \<subseteq> set equipment_list \<and>
   (\<exists>r. incident_log (snd (dispatch_incident sample_repr (PyStr ''Building Fire'')
            (PyStr ''High'') (PyStr ''12.9756'') (PyStr ''77.5950'')
            [FIRE_EXTINGUISHER @ '' Fire Extinguisher''] (PyInt 500) (initial_world id))) = [r] \<and>
         Severity r = PyStr ''High'' \<and>
         Equipment_Used r = FIRE_EXTINGUISHER @ '' Fire Extinguisher'' \<and>
         spec_row_invariant r)"
proof -
  have a: "PyStr ''High'' \<in> {PyStr ''Low'', PyStr ''Medium'', PyStr ''High''}" by simp
  have b: "set [FIRE_EXTINGUISHER @ '' Fire Extinguisher''] \<subseteq> set equipment_list"
    by (simp add: equipment_list_def)
  from dispatch_stores_inputs_unvalidated [of sample_repr "PyStr ''Building Fire''"
      "PyStr ''High''" "PyStr ''12.9756''" "PyStr ''77.5950''"
      "[FIRE_EXTINGUISHER @ '' Fire Extinguisher'']" "PyInt 500" "initial_world id"] a b
  obtain r where
    "incident_log (snd (dispatch_incident sample_repr (PyStr ''Building Fire'')
            (PyStr ''High'') (PyStr ''12.9756'') (PyStr ''77.5950'')
            [FIRE_EXTINGUISHER @ '' Fire Extinguisher''] (PyInt 500) (initial_world id))) =
      incident_log (initial_world id) @ [r]"
    "Severity r = PyStr ''High''"
    "Equipment_Used r = join '', '' [FIRE_EXTINGUISHER @ '' Fire Extinguisher'']"
    "spec_row_invariant r"
    by blast
  then have "\<exists>r. incident_log (snd (dispatch_incident sample_repr (PyStr ''Building Fire'')
            (PyStr ''High'') (PyStr ''12.9756'') (PyStr ''77.5950'')
            [FIRE_EXTINGUISHER @ '' Fire Extinguisher''] (PyInt 500) (initial_world id))) = [r] \<and>
         Severity r = PyStr ''High'' \<and>
         Equipment_Used r = FIRE_EXTINGUISHER @ '' Fire Extinguisher'' \<and>
         spec_row_invariant r"
    by (intro exI [of _ r]) (simp add: initial_world_def)
  with a b show ?thesis by (intro conjI)
qed

end
